theory Spec2Isabelle
  imports Complex_Main "HOL-Library.Word"
begin

section \<open>Values of the host language\<close>

text \<open>
  Strings are lists of code units. Isabelle's \<open>char\<close> has 256 values, so the model covers
  the strings whose code units are below U+0100; on these, comparison by code unit and
  lower-casing are as in the source language.
\<close>

text \<open>
  The relational comparison of two strings: a string is smaller than another when it is
  a proper prefix of it, or when the first code unit in which they differ is smaller.
  \<open>a >= b\<close> is the negation of \<open>a < b\<close>, and \<open>a <= b\<close> the negation of \<open>b < a\<close>.
\<close>

fun str_lt :: "string \<Rightarrow> string \<Rightarrow> bool" where
  "str_lt a [] = False"
| "str_lt [] (d # t) = True"
| "str_lt (c # s) (d # t) = (if c = d then str_lt s t else (of_char c :: nat) < of_char d)"

definition str_ge :: "string \<Rightarrow> string \<Rightarrow> bool" where
  "str_ge a b = (\<not> str_lt a b)"

definition str_le :: "string \<Rightarrow> string \<Rightarrow> bool" where
  "str_le a b = (\<not> str_lt b a)"

text \<open>
  \<open>toLowerCase\<close>: below U+0100 the letters with a lower-case partner are A to Z and
  U+00C0 to U+00DE without the multiplication sign U+00D7; the partner is 32 further on.
\<close>

definition lower_char :: "char \<Rightarrow> char" where
  "lower_char c =
     (let n = (of_char c :: nat)
      in if (65 \<le> n \<and> n \<le> 90) \<or> (192 \<le> n \<and> n \<le> 222 \<and> n \<noteq> 215)
         then char_of (n + 32) else c)"

definition toLowerCase :: "string \<Rightarrow> string" where
  "toLowerCase s = map lower_char s"

text \<open>\<open>s.includes(t)\<close>, here \<open>includes_str s t\<close>: \<open>t\<close> occurs in \<open>s\<close> as a contiguous run.\<close>

fun starts_with :: "string \<Rightarrow> string \<Rightarrow> bool" where
  "starts_with s [] = True"
| "starts_with [] (d # t) = False"
| "starts_with (c # s) (d # t) = (c = d \<and> starts_with s t)"

fun includes_str :: "string \<Rightarrow> string \<Rightarrow> bool" where
  "includes_str [] t = (t = [])"
| "includes_str (c # s) t = (starts_with (c # s) t \<or> includes_str s t)"

text \<open>
  The type \<open>number\<close> holds the double-precision values: not-a-number, the two
  infinities, the negative zero, and \<open>Fin q\<close> for the value \<open>q\<close>, with \<open>Fin 0\<close> the
  positive zero. A sum or a quotient is rounded to the nearest double, ties to the even
  significand, as \<open>round_double\<close> computes it: the significand has 53 bits, the exponent of
  a normal value ranges from -1022 to 1023, smaller values are spaced by \<open>2 ^ -1074\<close>, and
  a result of magnitude \<open>2 ^ 1024\<close> or more is an infinity.
\<close>

datatype number = NaN | NegInf | PosInf | NegZero | Fin rat

definition isNaN :: "number \<Rightarrow> bool" where
  "isNaN x = (x = NaN)"

text \<open>The number of binary digits of a positive integer.\<close>

function bit_length :: "int \<Rightarrow> int" where
  "bit_length n = (if n \<le> 0 then 0 else 1 + bit_length (n div 2))"
  by pat_completeness auto
termination
  by (relation "measure nat") auto

declare bit_length.simps [simp del]

definition pow2 :: "int \<Rightarrow> rat" where
  "pow2 e = (if 0 \<le> e then 2 ^ nat e else 1 / 2 ^ nat (- e))"

text \<open>For \<open>x > 0\<close>, the exponent \<open>e\<close> with \<open>2 ^ e \<le> x < 2 ^ (e + 1)\<close>.\<close>

definition floor_log2 :: "rat \<Rightarrow> int" where
  "floor_log2 x =
     (if 1 \<le> x then bit_length \<lfloor>x\<rfloor> - 1 else - bit_length (\<lceil>1 / x\<rceil> - 1))"

definition round_half_even :: "rat \<Rightarrow> int" where
  "round_half_even m =
     (if m - of_int \<lfloor>m\<rfloor> < 1 / 2 then \<lfloor>m\<rfloor>
      else if 1 / 2 < m - of_int \<lfloor>m\<rfloor> then \<lfloor>m\<rfloor> + 1
      else if even \<lfloor>m\<rfloor> then \<lfloor>m\<rfloor> else \<lfloor>m\<rfloor> + 1)"

text \<open>The spacing of the doubles around \<open>x > 0\<close>, and \<open>x\<close> rounded to a multiple of it.\<close>

definition ulp_of :: "rat \<Rightarrow> rat" where
  "ulp_of x = pow2 (max (floor_log2 x) (- 1022) - 52)"

definition round_mag :: "rat \<Rightarrow> rat" where
  "round_mag x = of_int (round_half_even (x / ulp_of x)) * ulp_of x"

definition round_double :: "rat \<Rightarrow> number" where
  "round_double q =
     (if q = 0 then Fin 0
      else if round_mag \<bar>q\<bar> = 0 then (if q < 0 then NegZero else Fin 0)
      else if 1024 \<le> floor_log2 (round_mag \<bar>q\<bar>) then (if q < 0 then NegInf else PosInf)
      else Fin (if q < 0 then - round_mag \<bar>q\<bar> else round_mag \<bar>q\<bar>))"

fun num_lt :: "number \<Rightarrow> number \<Rightarrow> bool" where
  "num_lt NaN y = False"
| "num_lt x NaN = False"
| "num_lt NegInf NegInf = False"
| "num_lt NegInf y = True"
| "num_lt x NegInf = False"
| "num_lt PosInf y = False"
| "num_lt x PosInf = True"
| "num_lt NegZero NegZero = False"
| "num_lt NegZero (Fin b) = (0 < b)"
| "num_lt (Fin a) NegZero = (a < 0)"
| "num_lt (Fin a) (Fin b) = (a < b)"

definition num_gt :: "number \<Rightarrow> number \<Rightarrow> bool" where
  "num_gt x y = num_lt y x"

text \<open>
  Addition. The sum of the negative zero and a finite value is that value; an exact sum
  of zero is the positive zero.
\<close>

fun num_add :: "number \<Rightarrow> number \<Rightarrow> number" where
  "num_add NaN y = NaN"
| "num_add x NaN = NaN"
| "num_add NegInf PosInf = NaN"
| "num_add PosInf NegInf = NaN"
| "num_add NegInf y = NegInf"
| "num_add x NegInf = NegInf"
| "num_add PosInf y = PosInf"
| "num_add x PosInf = PosInf"
| "num_add NegZero y = y"
| "num_add x NegZero = x"
| "num_add (Fin a) (Fin b) = round_double (a + b)"

text \<open>Division. The sign of a zero or infinite quotient is the product of the signs.\<close>

fun sign_bit :: "number \<Rightarrow> bool" where
  "sign_bit NegInf = True"
| "sign_bit NegZero = True"
| "sign_bit (Fin q) = (q < 0)"
| "sign_bit x = False"

fun is_inf :: "number \<Rightarrow> bool" where
  "is_inf NegInf = True"
| "is_inf PosInf = True"
| "is_inf x = False"

fun fin_val :: "number \<Rightarrow> rat" where
  "fin_val (Fin q) = q"
| "fin_val x = 0"

definition signed_zero :: "bool \<Rightarrow> number" where
  "signed_zero neg = (if neg then NegZero else Fin 0)"

definition signed_inf :: "bool \<Rightarrow> number" where
  "signed_inf neg = (if neg then NegInf else PosInf)"

definition num_div :: "number \<Rightarrow> number \<Rightarrow> number" where
  "num_div x y =
     (if x = NaN \<or> y = NaN then NaN
      else if is_inf x then (if is_inf y then NaN else signed_inf (sign_bit x \<noteq> sign_bit y))
      else if is_inf y then signed_zero (sign_bit x \<noteq> sign_bit y)
      else if fin_val y = 0
        then (if fin_val x = 0 then NaN else signed_inf (sign_bit x \<noteq> sign_bit y))
      else if fin_val x = 0 then signed_zero (sign_bit x \<noteq> sign_bit y)
      else round_double (fin_val x / fin_val y))"

text \<open>The length of an array as a number.\<close>

definition num_of_length :: "'a list \<Rightarrow> number" where
  "num_of_length xs = Fin (of_nat (length xs))"

type_synonym nat64 = "64 word"

datatype Principal = Principal (toString: string)

section \<open>Records\<close>

text \<open>
  A record type is its payload type extended by the generated fields, as the object
  literals of the source build it (\<open>{id, createdAt, updatedAt, ...payload}\<close>). The three
  record types share the names \<open>id\<close>, \<open>createdAt\<close> and \<open>updatedAt\<close>; the suffixes
  \<open>_s\<close>, \<open>_r\<close> and \<open>_u\<close> tell them apart.
\<close>

record ServicePayload =
  name :: string
  category :: string
  provider :: string
  date :: string
  startTime :: string
  endTime :: string
  location :: string
  description :: string

record ServiceRecord = ServicePayload +
  id_s :: string
  createdAt_s :: nat64
  updatedAt_s :: "nat64 option"

record ReviewPayload =
  serviceId :: string
  userId :: string
  rating :: number
  comment :: string

record ReviewRecord = ReviewPayload +
  id_r :: string
  createdAt_r :: nat64

record UserPayload =
  username :: string
  email :: string

record User = UserPayload +
  id_u :: string
  createdAt_u :: nat64
  updatedAt_u :: "nat64 option"

section \<open>The stores\<close>

text \<open>
  Modelled from the spec: the class \<open>StableBTreeMap\<close> of the platform library, of which
  the source only holds the calls. The spec describes it as an ordered key-value mapping
  keyed by string with insert, get, remove and enumeration of the values in key order.
  A store is the list of its entries; \<open>btree_insert\<close> replaces the entry of a key that is
  present and otherwise puts the new entry at its place in key order.
\<close>

type_synonym 'v btree = "(string \<times> 'v) list"

definition btree_get :: "string \<Rightarrow> 'v btree \<Rightarrow> 'v option" where
  "btree_get k m = map_of m k"

fun btree_insert :: "string \<Rightarrow> 'v \<Rightarrow> 'v btree \<Rightarrow> 'v btree" where
  "btree_insert k v [] = [(k, v)]"
| "btree_insert k v ((k', v') # m) =
     (if k = k' then (k, v) # m
      else if str_lt k k' then (k, v) # (k', v') # m
      else (k', v') # btree_insert k v m)"

definition btree_remove :: "string \<Rightarrow> 'v btree \<Rightarrow> 'v btree" where
  "btree_remove k m = filter (\<lambda>e. fst e \<noteq> k) m"

definition btree_values :: "'v btree \<Rightarrow> 'v list" where
  "btree_values m = map snd m"

record State =
  serviceStorage :: "ServiceRecord btree"
  reviewStorage :: "ReviewRecord btree"
  userStorage :: "User btree"

text \<open>The result type \<open>Result<T, string>\<close>: \<open>Inl\<close> carries the message of \<open>Result.Err\<close>.\<close>

type_synonym 'a Result = "string + 'a"

definition not_found_service :: "string \<Rightarrow> string" where
  "not_found_service i = ''Service with id='' @ i @ '' not found''"

section \<open>Objects\<close>

text \<open>
  The values that the operations handle beside the typed records: \<open>undefined\<close>, \<open>null\<close>,
  strings, 64-bit naturals and objects, an object being the list of its properties.
  \<open>truthy\<close> is the conversion to a truth value that \<open>!x\<close> and \<open>if (x)\<close> perform: every
  object is true. \<open>get_prop\<close> reads a property and gives \<open>undefined\<close> when the object has
  none of that name. \<open>{...a, ...b}\<close> is \<open>spread a b\<close>.
\<close>

datatype jsval = Undefined | Null | Str string | BigInt nat64 | Obj "(string \<times> jsval) list"

fun truthy :: "jsval \<Rightarrow> bool" where
  "truthy Undefined = False"
| "truthy Null = False"
| "truthy (Str s) = (s \<noteq> [])"
| "truthy (BigInt n) = (n \<noteq> 0)"
| "truthy (Obj ps) = True"

definition get_prop :: "(string \<times> jsval) list \<Rightarrow> string \<Rightarrow> jsval" where
  "get_prop ps k = (case map_of ps k of None \<Rightarrow> Undefined | Some v \<Rightarrow> v)"

fun set_prop :: "(string \<times> jsval) list \<Rightarrow> string \<Rightarrow> jsval \<Rightarrow> (string \<times> jsval) list" where
  "set_prop [] k v = [(k, v)]"
| "set_prop ((k', v') # ps) k v = (if k' = k then (k, v) # ps else (k', v') # set_prop ps k v)"

definition spread ::
  "(string \<times> jsval) list \<Rightarrow> (string \<times> jsval) list \<Rightarrow> (string \<times> jsval) list" where
  "spread a b = foldl (\<lambda>ps (k, v). set_prop ps k v) a b"

text \<open>
  The optional value \<open>Opt<T>\<close> is an object with the one property \<open>Some\<close> or the one
  property \<open>None\<close>: it is built by \<open>Opt.Some\<close> and \<open>Opt.None\<close> and taken apart by
  \<open>match(..., {Some: ..., None: ...})\<close>. The \<open>get\<close> of a store returns such an object.
\<close>

fun opt_obj :: "('a \<Rightarrow> jsval) \<Rightarrow> 'a option \<Rightarrow> (string \<times> jsval) list" where
  "opt_obj f None = [(''None'', Null)]"
| "opt_obj f (Some x) = [(''Some'', f x)]"

definition payload_obj :: "ServicePayload \<Rightarrow> (string \<times> jsval) list" where
  "payload_obj p =
     [(''name'', Str (name p)), (''category'', Str (category p)),
      (''provider'', Str (provider p)), (''date'', Str (date p)),
      (''startTime'', Str (startTime p)), (''endTime'', Str (endTime p)),
      (''location'', Str (location p)), (''description'', Str (description p))]"

definition service_obj :: "ServiceRecord \<Rightarrow> (string \<times> jsval) list" where
  "service_obj r =
     [(''id'', Str (id_s r)), (''createdAt'', BigInt (createdAt_s r)),
      (''updatedAt'', Obj (opt_obj BigInt (updatedAt_s r))),
      (''name'', Str (name r)), (''category'', Str (category r)),
      (''provider'', Str (provider r)), (''date'', Str (date r)),
      (''startTime'', Str (startTime r)), (''endTime'', Str (endTime r)),
      (''location'', Str (location r)), (''description'', Str (description r))]"

text \<open>What \<open>serviceStorage.get(i)\<close> returns.\<close>

definition service_get :: "string \<Rightarrow> State \<Rightarrow> (string \<times> jsval) list" where
  "service_get i st = opt_obj (\<lambda>r. Obj (service_obj r)) (btree_get i (serviceStorage st))"

section \<open>Operations on services\<close>

text \<open>
  Every operation takes the state of the three stores; an update returns the result
  together with the new state. The identifier that \<open>uuidv4()\<close> generates and the time
  that \<open>ic.time()\<close> reads are arguments (\<open>uuid\<close>, \<open>now\<close>) of the operations that call them.

  \<open>updateService\<close>, \<open>deleteService\<close>, \<open>getService\<close>, \<open>updateServiceLocation\<close> and
  \<open>addReview\<close> apply \<open>!\<close> and the property access \<open>.provider\<close> to the object that \<open>get\<close>
  returns, and the model does the same. An operation that hands the store an object built
  by spreading takes the argument \<open>as_record\<close>, the record the store keeps for such an
  object: that conversion lies in the platform library.
\<close>

definition addService ::
  "string \<Rightarrow> nat64 \<Rightarrow> ServicePayload \<Rightarrow> Principal \<Rightarrow> State \<Rightarrow> ServiceRecord Result \<times> State" where
  "addService uuid now payload caller st =
     (if name payload = [] \<or> category payload = [] \<or> provider payload = [] \<or> date payload = []
         \<or> startTime payload = [] \<or> endTime payload = [] \<or> location payload = []
         \<or> description payload = []
      then (Inl ''Missing or invalid input data'', st)
      else
        let record = \<lparr> name = name payload, category = category payload,
                        provider = provider payload, date = date payload,
                        startTime = startTime payload, endTime = endTime payload,
                        location = location payload, description = description payload,
                        id_s = uuid, createdAt_s = now, updatedAt_s = None \<rparr>
        in (Inr record,
            st\<lparr>serviceStorage := btree_insert (id_s record) record (serviceStorage st)\<rparr>))"

definition updateService ::
  "((string \<times> jsval) list \<Rightarrow> ServiceRecord) \<Rightarrow> nat64 \<Rightarrow> string \<Rightarrow> ServicePayload \<Rightarrow> Principal
     \<Rightarrow> State \<Rightarrow> jsval Result \<times> State" where
  "updateService as_record now i payload caller st =
     (let existingRecord = service_get i st
      in if \<not> truthy (Obj existingRecord) then (Inl (not_found_service i), st)
         else if get_prop existingRecord ''provider'' \<noteq> Str (toString caller)
         then (Inl ''You are not authorized to update this service'', st)
         else
           let updatedRecord =
                 spread (spread existingRecord (payload_obj payload))
                   [(''updatedAt'', Obj (opt_obj BigInt (Some now)))]
           in (Inr (Obj updatedRecord),
               st\<lparr>serviceStorage :=
                    btree_insert i (as_record updatedRecord) (serviceStorage st)\<rparr>))"

definition deleteService :: "string \<Rightarrow> Principal \<Rightarrow> State \<Rightarrow> jsval Result \<times> State" where
  "deleteService i caller st =
     (let existingRecord = service_get i st
      in if \<not> truthy (Obj existingRecord) then (Inl (not_found_service i), st)
         else if get_prop existingRecord ''provider'' \<noteq> Str (toString caller)
         then (Inl ''You are not authorized to delete this service'', st)
         else (Inr (Obj existingRecord),
               st\<lparr>serviceStorage := btree_remove i (serviceStorage st)\<rparr>))"

definition getService :: "string \<Rightarrow> State \<Rightarrow> jsval Result" where
  "getService i st =
     (let existingRecord = service_get i st
      in if \<not> truthy (Obj existingRecord) then Inl (not_found_service i)
         else Inr (Obj existingRecord))"

definition getServices :: "State \<Rightarrow> ServiceRecord list Result" where
  "getServices st = Inr (btree_values (serviceStorage st))"

definition searchServicesByCategory :: "string \<Rightarrow> State \<Rightarrow> ServiceRecord list Result" where
  "searchServicesByCategory cat st =
     Inr (filter (\<lambda>service. toLowerCase (category service) = toLowerCase cat)
            (btree_values (serviceStorage st)))"

definition filterServicesByProvider :: "string \<Rightarrow> State \<Rightarrow> ServiceRecord list Result" where
  "filterServicesByProvider prov st =
     Inr (filter (\<lambda>service. toLowerCase (provider service) = toLowerCase prov)
            (btree_values (serviceStorage st)))"

definition filterServicesByDateRange ::
  "string \<Rightarrow> string \<Rightarrow> State \<Rightarrow> ServiceRecord list Result" where
  "filterServicesByDateRange startDate endDate st =
     Inr (filter (\<lambda>service. str_ge (date service) startDate \<and> str_le (date service) endDate)
            (btree_values (serviceStorage st)))"


section \<open>Operations on reviews and users\<close>

definition addReview ::
  "string \<Rightarrow> nat64 \<Rightarrow> ReviewPayload \<Rightarrow> Principal \<Rightarrow> State \<Rightarrow> ReviewRecord Result \<times> State" where
  "addReview uuid now payload caller st =
     (if serviceId payload = [] \<or> userId payload = [] \<or> isNaN (rating payload)
         \<or> num_lt (rating payload) (Fin 0) \<or> num_gt (rating payload) (Fin 5)
         \<or> comment payload = []
      then (Inl ''Invalid review data'', st)
      else
        let serviceExists = service_get (serviceId payload) st
        in if \<not> truthy (Obj serviceExists) then (Inl ''Service does not exist'', st)
           else
             let review = \<lparr> serviceId = serviceId payload, userId = userId payload,
                             rating = rating payload, comment = comment payload,
                             id_r = uuid, createdAt_r = now \<rparr>
             in (Inr review,
                 st\<lparr>reviewStorage := btree_insert (id_r review) review (reviewStorage st)\<rparr>))"

definition getAllReviews :: "State \<Rightarrow> ReviewRecord list Result" where
  "getAllReviews st = Inr (btree_values (reviewStorage st))"

definition getServiceReviews :: "string \<Rightarrow> State \<Rightarrow> ReviewRecord list Result" where
  "getServiceReviews sid st =
     Inr (filter (\<lambda>review. serviceId review = sid) (btree_values (reviewStorage st)))"

definition getServiceAverageRating :: "string \<Rightarrow> State \<Rightarrow> number Result" where
  "getServiceAverageRating sid st =
     (let reviews = filter (\<lambda>review. serviceId review = sid) (btree_values (reviewStorage st))
      in if length reviews = 0 then Inl ''No reviews found for the service''
         else
           let totalRating = foldl (\<lambda>sum review. num_add sum (rating review)) (Fin 0) reviews;
               averageRating = num_div totalRating (num_of_length reviews)
           in Inr averageRating)"

definition getAllUsers :: "State \<Rightarrow> User list Result" where
  "getAllUsers st = Inr (btree_values (userStorage st))"

definition searchUsersByUsername :: "string \<Rightarrow> State \<Rightarrow> User list Result" where
  "searchUsersByUsername uname st =
     Inr (filter (\<lambda>user. includes_str (toLowerCase (username user)) (toLowerCase uname))
            (btree_values (userStorage st)))"

definition searchUsersByEmail :: "string \<Rightarrow> State \<Rightarrow> User list Result" where
  "searchUsersByEmail mail st =
     Inr (filter (\<lambda>user. includes_str (toLowerCase (email user)) (toLowerCase mail))
            (btree_values (userStorage st)))"

section \<open>Notions of the specification\<close>

text \<open>
  The lexicographic order of the specification, taken from the library's \<open>lexord\<close> over
  the order of the code units, to compare with the comparison the code performs.
\<close>

definition spec_lex_le :: "string \<Rightarrow> string \<Rightarrow> bool" where
  "spec_lex_le a b \<longleftrightarrow> a = b \<or> (a, b) \<in> lexord {(c, d). (of_char c :: nat) < of_char d}"

text \<open>The arithmetic mean of a non-empty list of rationals.\<close>

definition spec_mean :: "rat list \<Rightarrow> rat" where
  "spec_mean qs = sum_list qs / of_nat (length qs)"

text \<open>
  A rational is a double when rounding leaves it as it is. \<open>sums_exact a qs\<close>: adding the
  values \<open>qs\<close> to \<open>a\<close> one after the other only passes through doubles.
\<close>

definition is_double :: "rat \<Rightarrow> bool" where
  "is_double q \<longleftrightarrow> round_double q = Fin q"

fun sums_exact :: "rat \<Rightarrow> rat list \<Rightarrow> bool" where
  "sums_exact a [] = True"
| "sums_exact a (q # qs) = (is_double (a + q) \<and> sums_exact (a + q) qs)"

text \<open>
  Equality of two strings without regard to case: they have the same length, and at every
  position the two code units are the same or one is the upper-case letter whose
  lower-case partner is the other.
\<close>

definition spec_upper :: "char \<Rightarrow> bool" where
  "spec_upper c \<longleftrightarrow>
     (65 \<le> (of_char c :: nat) \<and> (of_char c :: nat) \<le> 90)
     \<or> (192 \<le> (of_char c :: nat) \<and> (of_char c :: nat) \<le> 222 \<and> (of_char c :: nat) \<noteq> 215)"

definition spec_same_letter :: "char \<Rightarrow> char \<Rightarrow> bool" where
  "spec_same_letter c d \<longleftrightarrow>
     c = d \<or> (spec_upper c \<and> (of_char d :: nat) = of_char c + 32)
           \<or> (spec_upper d \<and> (of_char c :: nat) = of_char d + 32)"

definition spec_ci_eq :: "string \<Rightarrow> string \<Rightarrow> bool" where
  "spec_ci_eq a b = list_all2 spec_same_letter a b"

section \<open>Sample data\<close>

definition sample_payload :: ServicePayload where
  "sample_payload =
     \<lparr> name = ''Lunch'', category = ''Food'', provider = ''alice'', date = ''2024-01-15'',
       startTime = ''12:00'', endTime = ''13:00'', location = ''Hall'',
       description = ''Daily lunch'' \<rparr>"

definition sample_service :: "string \<Rightarrow> string \<Rightarrow> string \<Rightarrow> ServiceRecord" where
  "sample_service i cat day =
     \<lparr> name = ''Lunch'', category = cat, provider = ''alice'', date = day,
       startTime = ''12:00'', endTime = ''13:00'', location = ''Hall'',
       description = ''Daily lunch'', id_s = i, createdAt_s = 100, updatedAt_s = None \<rparr>"

definition sample_review :: "string \<Rightarrow> string \<Rightarrow> number \<Rightarrow> ReviewRecord" where
  "sample_review i sid r =
     \<lparr> serviceId = sid, userId = ''bob'', rating = r, comment = ''fine'',
       id_r = i, createdAt_r = 200 \<rparr>"

definition sample_review_payload :: "number \<Rightarrow> ReviewPayload" where
  "sample_review_payload r =
     \<lparr> serviceId = ''s1'', userId = ''bob'', rating = r, comment = ''fine'' \<rparr>"

definition sample_user :: "string \<Rightarrow> string \<Rightarrow> User" where
  "sample_user i uname =
     \<lparr> username = uname, email = ''u@example.org'', id_u = i, createdAt_u = 300,
       updatedAt_u = None \<rparr>"

definition sample_state :: State where
  "sample_state =
     \<lparr> serviceStorage =
         [(''s1'', sample_service ''s1'' ''Food'' ''2024-01-15''),
          (''s2'', sample_service ''s2'' ''food'' ''2024-02-01''),
          (''s3'', sample_service ''s3'' ''Music'' ''2024-01-31'')],
       reviewStorage =
         [(''r1'', sample_review ''r1'' ''s1'' (Fin 3)),
          (''r2'', sample_review ''r2'' ''s1'' (Fin 4)),
          (''r3'', sample_review ''r3'' ''s2'' (Fin 1)),
          (''r4'', sample_review ''r4'' ''s1'' (Fin 5))],
       userStorage = [(''u1'', sample_user ''u1'' ''Bob'')] \<rparr>"

definition sample_reviews_112 :: State where
  "sample_reviews_112 =
     \<lparr> serviceStorage = [(''s1'', sample_service ''s1'' ''Food'' ''2024-01-15'')],
       reviewStorage =
         [(''r1'', sample_review ''r1'' ''s1'' (Fin 1)),
          (''r2'', sample_review ''r2'' ''s1'' (Fin 1)),
          (''r3'', sample_review ''r3'' ''s1'' (Fin 2))],
       userStorage = [] \<rparr>"

text \<open>The record that \<open>addService\<close> builds from the sample payload, the id \<open>s4\<close> and the time 9.\<close>

definition sample_added :: ServiceRecord where
  "sample_added = (sample_service ''s4'' ''Food'' ''2024-01-15'')\<lparr>createdAt_s := 9\<rparr>"

text \<open>A valid review of the service \<open>s9\<close>, which the sample state does not hold.\<close>

definition sample_orphan_payload :: ReviewPayload where
  "sample_orphan_payload =
     \<lparr> serviceId = ''s9'', userId = ''bob'', rating = Fin 5, comment = ''fine'' \<rparr>"

definition sample_orphan_review :: ReviewRecord where
  "sample_orphan_review =
     \<lparr> serviceId = ''s9'', userId = ''bob'', rating = Fin 5, comment = ''fine'',
       id_r = ''r9'', createdAt_r = 5 \<rparr>"

section \<open>Facts about the stores and the host values\<close>

lemma btree_get_insert_same: "btree_get k (btree_insert k v m) = Some v"
  by (induction m) (auto simp: btree_get_def)

lemma btree_get_insert_other: "k' \<noteq> k \<Longrightarrow> btree_get k' (btree_insert k v m) = btree_get k' m"
  by (induction m) (auto simp: btree_get_def)

lemma btree_get_remove_same: "btree_get k (btree_remove k m) = None"
  by (induction m) (auto simp: btree_get_def btree_remove_def)

lemma btree_get_remove_other: "k' \<noteq> k \<Longrightarrow> btree_get k' (btree_remove k m) = btree_get k' m"
  by (induction m) (auto simp: btree_get_def btree_remove_def)

lemma of_char_nat_eq: "((of_char c :: nat) = of_char d) = (c = d)"
  by (metis char_of_char)

lemma str_lt_lexord:
  "str_lt a b \<longleftrightarrow> (a, b) \<in> lexord {(c, d). (of_char c :: nat) < of_char d}"
  by (induction a b rule: str_lt.induct) auto

lemma str_lt_irrefl: "\<not> str_lt a a"
  by (induction a) auto

lemma str_lt_total: "\<not> str_lt b a \<longleftrightarrow> a = b \<or> str_lt a b"
proof (induction a b rule: str_lt.induct)
  case (1 a)
  then show ?case by (cases a) auto
next
  case (2 d t)
  then show ?case by simp
next
  case (3 c s d t)
  have "c \<noteq> d \<Longrightarrow> (of_char c :: nat) < of_char d \<or> (of_char d :: nat) < of_char c"
    by (metis of_char_nat_eq nat_neq_iff)
  with 3 show ?case by auto
qed

lemma str_le_spec: "str_le a b \<longleftrightarrow> spec_lex_le a b"
  by (simp add: str_le_def spec_lex_le_def str_lt_total str_lt_lexord [symmetric])

lemma str_ge_spec: "str_ge a b \<longleftrightarrow> spec_lex_le b a"
  by (simp add: str_ge_def spec_lex_le_def str_lt_total str_lt_lexord [symmetric])

text \<open>
  Inserting and removing keep the keys of a store in strictly increasing order, so that a
  store built by these operations holds every key once and enumerates in key order.
\<close>

lemma str_lt_trans: "str_lt a b \<Longrightarrow> str_lt b c \<Longrightarrow> str_lt a c"
  unfolding str_lt_lexord by (rule lexord_trans) (auto simp: trans_def)

lemma btree_insert_keys:
  "set (map fst (btree_insert k v m)) = insert k (set (map fst m))"
proof (induction m)
  case Nil
  then show ?case by simp
next
  case (Cons e m)
  obtain k' v' where e: "e = (k', v')" by (cases e)
  show ?case
    using Cons.IH by (simp add: e del: set_map) blast
qed

lemma btree_insert_sorted:
  "sorted_wrt str_lt (map fst m) \<Longrightarrow> sorted_wrt str_lt (map fst (btree_insert k v m))"
proof (induction m)
  case Nil
  then show ?case by simp
next
  case (Cons e m)
  obtain k' v' where e: "e = (k', v')" by (cases e)
  show ?case
  proof (cases "k = k'")
    case True
    with Cons.prems e show ?thesis by simp
  next
    case False
    show ?thesis
    proof (cases "str_lt k k'")
      case True
      with Cons.prems e False show ?thesis by (auto intro: str_lt_trans)
    next
      case lt: False
      with False have "str_lt k' k" using str_lt_total [of k k'] by auto
      moreover have "set (map fst (btree_insert k v m)) = insert k (set (map fst m))"
        by (rule btree_insert_keys)
      ultimately show ?thesis
        using Cons e False lt by (simp del: set_map)
    qed
  qed
qed

lemma btree_remove_sorted:
  "sorted_wrt str_lt (map fst m) \<Longrightarrow> sorted_wrt str_lt (map fst (btree_remove k m))"
  by (induction m) (auto simp: btree_remove_def)

lemma of_char_lower_upper:
  "spec_upper c \<Longrightarrow> (of_char (lower_char c) :: nat) = of_char c + 32"
  by (auto simp: spec_upper_def lower_char_def Let_def)

lemma lower_char_not_upper: "\<not> spec_upper c \<Longrightarrow> lower_char c = c"
  by (auto simp: spec_upper_def lower_char_def Let_def)

lemma lower_not_upper: "spec_upper c \<Longrightarrow> (of_char d :: nat) = of_char c + 32 \<Longrightarrow> \<not> spec_upper d"
  by (auto simp: spec_upper_def)

lemma lower_char_eq_iff: "lower_char c = lower_char d \<longleftrightarrow> spec_same_letter c d"
proof -
  have inj: "\<And>x y. (x = y) = ((of_char x :: nat) = of_char y)"
    by (simp add: of_char_nat_eq)
  show ?thesis
  proof (cases "spec_upper c"; cases "spec_upper d")
    assume u: "spec_upper c" "spec_upper d"
    then show ?thesis
      using lower_not_upper [of c d] lower_not_upper [of d c]
      by (auto simp: inj [of "lower_char c"] of_char_lower_upper spec_same_letter_def of_char_nat_eq)
  next
    assume u: "spec_upper c" "\<not> spec_upper d"
    then show ?thesis
      by (auto simp: inj [of "lower_char c"] of_char_lower_upper lower_char_not_upper
          spec_same_letter_def)
  next
    assume u: "\<not> spec_upper c" "spec_upper d"
    then show ?thesis
      by (auto simp: inj [of c "lower_char d"] of_char_lower_upper lower_char_not_upper
          spec_same_letter_def)
  next
    assume u: "\<not> spec_upper c" "\<not> spec_upper d"
    then show ?thesis
      by (auto simp: lower_char_not_upper spec_same_letter_def)
  qed
qed

lemma toLowerCase_eq_iff: "toLowerCase a = toLowerCase b \<longleftrightarrow> spec_ci_eq a b"
proof -
  have "map lower_char a = map lower_char b
        \<longleftrightarrow> list_all2 (\<lambda>x y. lower_char x = lower_char y) a b"
    by (auto simp: list_all2_conv_all_nth list_eq_iff_nth_eq)
  then show ?thesis
    by (simp add: toLowerCase_def spec_ci_eq_def lower_char_eq_iff)
qed

lemma lower_Food: "toLowerCase ''Food'' = toLowerCase ''food''"
  by code_simp

section \<open>Facts about the sample data\<close>

lemma sample_get_s1:
  "btree_get ''s1'' (serviceStorage sample_state) = Some (sample_service ''s1'' ''Food'' ''2024-01-15'')"
  by (simp add: sample_state_def btree_get_def)

lemma sample_get_s9: "btree_get ''s9'' (serviceStorage sample_state) = None"
  by (simp add: sample_state_def btree_get_def)

lemma sample_provider: "provider (sample_service i c d) = ''alice''"
  by (simp add: sample_service_def)

section \<open>Facts about the operations\<close>

text \<open>
  The object that \<open>get\<close> returns is true under \<open>!\<close> whether it holds a record or not,
  and it has no property \<open>provider\<close>. Hence the not-found branch of the operations that
  test it with \<open>!\<close> is never taken, the comparison of \<open>.provider\<close> with the caller never
  finds the two equal, and the service-exists test of \<open>addReview\<close> never fails.
\<close>

lemma truthy_service_get: "truthy (Obj (service_get i st))"
  by simp

lemma service_get_provider: "get_prop (service_get i st) ''provider'' = Undefined"
  by (cases "btree_get i (serviceStorage st)") (simp_all add: service_get_def get_prop_def)

lemma updateService_refused:
  "updateService as_record now i p caller st
     = (Inl ''You are not authorized to update this service'', st)"
  by (simp add: updateService_def Let_def service_get_provider)

lemma deleteService_refused:
  "deleteService i caller st = (Inl ''You are not authorized to delete this service'', st)"
  by (simp add: deleteService_def Let_def service_get_provider)


lemma getService_wrapper: "getService i st = Inr (Obj (service_get i st))"
  by (simp add: getService_def Let_def)

lemma addReview_invalid_iff:
  "fst (addReview uuid now p caller st) = Inl ''Invalid review data'' \<longleftrightarrow>
     isNaN (rating p) \<or> num_lt (rating p) (Fin 0) \<or> num_gt (rating p) (Fin 5)
     \<or> comment p = [] \<or> serviceId p = [] \<or> userId p = []"
  by (auto simp: addReview_def Let_def)

lemma addReview_valid:
  "\<not> (isNaN (rating p) \<or> num_lt (rating p) (Fin 0) \<or> num_gt (rating p) (Fin 5)
       \<or> comment p = [] \<or> serviceId p = [] \<or> userId p = []) \<Longrightarrow>
   addReview uuid now p caller st
     = (Inr \<lparr> serviceId = serviceId p, userId = userId p, rating = rating p,
               comment = comment p, id_r = uuid, createdAt_r = now \<rparr>,
        st\<lparr>reviewStorage :=
             btree_insert uuid
               \<lparr> serviceId = serviceId p, userId = userId p, rating = rating p,
                 comment = comment p, id_r = uuid, createdAt_r = now \<rparr>
               (reviewStorage st)\<rparr>)"
  by (auto simp: addReview_def Let_def)

text \<open>Sums and quotients that are doubles are computed exactly.\<close>

lemma num_add_exact: "is_double (a + q) \<Longrightarrow> num_add (Fin a) (Fin q) = Fin (a + q)"
  by (simp add: is_double_def)

lemma foldl_num_add_exact:
  "map rating rs = map Fin qs \<Longrightarrow> sums_exact a qs \<Longrightarrow>
   foldl (\<lambda>sum review. num_add sum (rating review)) (Fin a) rs = Fin (a + sum_list qs)"
proof (induction rs arbitrary: a qs)
  case Nil
  then show ?case by simp
next
  case (Cons r rs)
  then obtain q qs' where q: "qs = q # qs'" "rating r = Fin q" "map rating rs = map Fin qs'"
    by (cases qs) auto
  with Cons.prems have "round_double (a + q) = Fin (a + q)" "sums_exact (a + q) qs'"
    by (simp_all add: is_double_def)
  with Cons.IH [of qs' "a + q"] q show ?case
    by (simp add: add.assoc)
qed

lemma num_div_exact:
  "0 < b \<Longrightarrow> is_double (a / b) \<Longrightarrow> num_div (Fin a) (Fin b) = Fin (a / b)"
  by (auto simp: num_div_def is_double_def signed_zero_def)

lemma double_1: "is_double 1"
  unfolding is_double_def by code_simp

lemma double_2: "is_double 2"
  unfolding is_double_def by code_simp

lemma double_3: "is_double 3"
  unfolding is_double_def by code_simp

lemma double_4: "is_double 4"
  unfolding is_double_def by code_simp

lemma double_7: "is_double 7"
  unfolding is_double_def by code_simp

lemma double_12: "is_double 12"
  unfolding is_double_def by code_simp

lemma round_four_thirds:
  "round_double (4 / 3) = Fin (6004799503160661 / 4503599627370496)"
  by code_simp

section \<open>The average rating of a service\<close>

text \<open>
  Claim C1, as stated: the result is the arithmetic mean of the matching ratings. With
  the ratings 1, 1, 2 the mean is 4/3, which is not a double; the operation returns the
  double next to it.
\<close>

theorem getServiceAverageRating_mean_counterexample:
  "map rating (filter (\<lambda>r. serviceId r = ''s1'') (btree_values (reviewStorage sample_reviews_112)))
     = [Fin 1, Fin 1, Fin 2]
   \<and> getServiceAverageRating ''s1'' sample_reviews_112
     = Inr (Fin (6004799503160661 / 4503599627370496))
   \<and> getServiceAverageRating ''s1'' sample_reviews_112 \<noteq> Inr (Fin (spec_mean [1, 1, 2]))"
proof -
  let ?rs = "filter (\<lambda>r. serviceId r = ''s1'') (btree_values (reviewStorage sample_reviews_112))"
  have ratings: "map rating ?rs = map Fin [1, 1, 2]"
    by (simp add: sample_reviews_112_def sample_review_def btree_values_def)
  have len: "length ?rs = 3"
    using ratings by (metis length_map length_Cons list.size(3) numeral_3_eq_3)
  have "sums_exact 0 [1, 1, 2]"
    using double_1 double_2 double_4 by simp
  from foldl_num_add_exact [OF ratings this]
  have total: "foldl (\<lambda>sum review. num_add sum (rating review)) (Fin 0) ?rs = Fin 4"
    by simp
  have quot: "num_div (Fin 4) (Fin 3) = Fin (6004799503160661 / 4503599627370496)"
    using round_four_thirds by (simp add: num_div_def)
  have res: "getServiceAverageRating ''s1'' sample_reviews_112
      = Inr (Fin (6004799503160661 / 4503599627370496))"
  proof -
    have ne: "?rs \<noteq> []" using len by auto
    show ?thesis
      using total quot len ne
      by (simp add: getServiceAverageRating_def Let_def num_of_length_def)
  qed
  have "(6004799503160661 / 4503599627370496 :: rat) \<noteq> spec_mean [1, 1, 2]"
    by (simp add: spec_mean_def)
  with res ratings show ?thesis by simp
qed

text \<open>
  Claim C1, amended. \<open>getServiceAverageRating\<close> fails with the no-reviews message when no
  stored review has the given \<open>serviceId\<close>. Otherwise it returns the sum of the ratings of
  exactly the reviews with that \<open>serviceId\<close>, added up from 0 in the order of the store with
  every addition rounded to a double, divided by their number and rounded again. This is
  the arithmetic mean whenever the partial sums and the mean are doubles, as for the
  ratings 3, 4, 5 with the result 4.
\<close>

theorem getServiceAverageRating_rounded_mean:
  "((\<forall>r \<in> set (btree_values (reviewStorage st)). serviceId r \<noteq> sid) \<longrightarrow>
      getServiceAverageRating sid st = Inl ''No reviews found for the service'')
   \<and> ((\<exists>r \<in> set (btree_values (reviewStorage st)). serviceId r = sid) \<longrightarrow>
      getServiceAverageRating sid st =
        Inr (num_div
              (foldl num_add (Fin 0)
                 (map rating (filter (\<lambda>r. serviceId r = sid) (btree_values (reviewStorage st)))))
              (Fin (of_nat
                 (length (filter (\<lambda>r. serviceId r = sid) (btree_values (reviewStorage st))))))))
   \<and> ((\<exists>r \<in> set (btree_values (reviewStorage st)). serviceId r = sid)
        \<and> map rating (filter (\<lambda>r. serviceId r = sid) (btree_values (reviewStorage st)))
            = map Fin qs
        \<and> sums_exact 0 qs \<and> is_double (spec_mean qs) \<longrightarrow>
      getServiceAverageRating sid st = Inr (Fin (spec_mean qs)))
   \<and> (map rating (filter (\<lambda>r. serviceId r = sid) (btree_values (reviewStorage st)))
          = [Fin 3, Fin 4, Fin 5] \<longrightarrow>
      getServiceAverageRating sid st = Inr (Fin 4))"
proof -
  let ?rs = "filter (\<lambda>r. serviceId r = sid) (btree_values (reviewStorage st))"
  have empty_iff: "?rs = [] \<longleftrightarrow> (\<forall>r \<in> set (btree_values (reviewStorage st)). serviceId r \<noteq> sid)"
    by (auto simp: filter_empty_conv)
  have none: "?rs = [] \<Longrightarrow> getServiceAverageRating sid st = Inl ''No reviews found for the service''"
    by (simp add: getServiceAverageRating_def)
  have some: "?rs \<noteq> [] \<Longrightarrow> getServiceAverageRating sid st =
      Inr (num_div (foldl num_add (Fin 0) (map rating ?rs)) (Fin (of_nat (length ?rs))))"
    by (simp add: getServiceAverageRating_def Let_def num_of_length_def foldl_map)
  have fin: "getServiceAverageRating sid st = Inr (Fin (spec_mean qs))"
    if ne: "?rs \<noteq> []" and m: "map rating ?rs = map Fin qs"
      and ex: "sums_exact 0 qs" and dm: "is_double (spec_mean qs)" for qs
  proof -
    have len: "length ?rs = length qs"
      using m by (metis length_map)
    then have "qs \<noteq> []" using ne by auto
    then have pos: "(0 :: rat) < of_nat (length qs)" by simp
    have total: "foldl (\<lambda>sum review. num_add sum (rating review)) (Fin 0) ?rs
        = Fin (0 + sum_list qs)"
      by (rule foldl_num_add_exact [OF m ex])
    have "num_div (Fin (sum_list qs)) (Fin (of_nat (length qs)))
        = Fin (sum_list qs / of_nat (length qs))"
      using dm by (intro num_div_exact [OF pos]) (simp add: spec_mean_def)
    then show ?thesis
      using ne total len
      by (simp add: getServiceAverageRating_def Let_def num_of_length_def spec_mean_def)
  qed
  have ex345: "getServiceAverageRating sid st = Inr (Fin 4)"
    if m: "map rating ?rs = [Fin 3, Fin 4, Fin 5]"
  proof -
    have ne: "?rs \<noteq> []" using m by auto
    have m': "map rating ?rs = map Fin [3, 4, 5]" using m by simp
    have s: "sums_exact 0 [3, 4, 5]"
      using double_3 double_7 double_12 by simp
    have d: "is_double (spec_mean [3, 4, 5])"
      using double_4 by (simp add: spec_mean_def)
    from fin [OF ne m' s d] show ?thesis by (simp add: spec_mean_def)
  qed
  show ?thesis
    using none some fin ex345 empty_iff by blast
qed

text \<open>
  The sample state has no review of \<open>s9\<close>, the ratings 3, 4, 5 for \<open>s1\<close>, and one
  rating for \<open>s2\<close>.
\<close>

theorem getServiceAverageRating_rounded_mean_witness:
  "getServiceAverageRating ''s9'' sample_state = Inl ''No reviews found for the service''
   \<and> getServiceAverageRating ''s1'' sample_state = Inr (Fin 4)
   \<and> getServiceAverageRating ''s2'' sample_state = Inr (Fin (spec_mean [1]))"
proof -
  have absent: "\<forall>r \<in> set (btree_values (reviewStorage sample_state)). serviceId r \<noteq> ''s9''"
    by (simp add: sample_state_def sample_review_def btree_values_def)
  have ratings1: "map rating (filter (\<lambda>r. serviceId r = ''s1'')
      (btree_values (reviewStorage sample_state))) = [Fin 3, Fin 4, Fin 5]"
    by (simp add: sample_state_def sample_review_def btree_values_def)
  have present2: "\<exists>r \<in> set (btree_values (reviewStorage sample_state)). serviceId r = ''s2''"
    by (simp add: sample_state_def sample_review_def btree_values_def)
  have ratings2: "map rating (filter (\<lambda>r. serviceId r = ''s2'')
      (btree_values (reviewStorage sample_state))) = map Fin [1]"
    by (simp add: sample_state_def sample_review_def btree_values_def)
  have exact2: "sums_exact 0 [1]" "is_double (spec_mean [1])"
    using double_1 by (simp_all add: spec_mean_def)
  have "getServiceAverageRating ''s9'' sample_state = Inl ''No reviews found for the service''"
    using getServiceAverageRating_rounded_mean [of sample_state "''s9''" "[]"] absent by blast
  moreover have "getServiceAverageRating ''s1'' sample_state = Inr (Fin 4)"
    using getServiceAverageRating_rounded_mean [of sample_state "''s1''" "[]"] ratings1 by blast
  moreover have "getServiceAverageRating ''s2'' sample_state = Inr (Fin (spec_mean [1]))"
    using getServiceAverageRating_rounded_mean [of sample_state "''s2''" "[1]"]
      present2 ratings2 exact2 by blast
  ultimately show ?thesis by blast
qed

section \<open>Authorization of updates\<close>


section \<open>Deleting a service\<close>

text \<open>
  Claim C3 says that \<open>deleteService\<close> of a stored service by its provider returns the
  record and makes a following \<open>getService\<close> fail with the not-found message, and that
  \<open>deleteService\<close> of an absent id fails with the not-found message. In the sample state
  the provider \<open>alice\<close> of \<open>s1\<close> is refused and \<open>s1\<close> stays stored; for the absent id \<open>s9\<close>
  the answer is the not-authorized message, not the not-found one; and \<open>getService\<close> of
  \<open>s9\<close> succeeds with the object that \<open>get\<close> returned.
\<close>

theorem deleteService_refuses_everyone:
  "btree_get ''s1'' (serviceStorage sample_state)
     = Some (sample_service ''s1'' ''Food'' ''2024-01-15'')
   \<and> provider (sample_service ''s1'' ''Food'' ''2024-01-15'') = toString (Principal ''alice'')
   \<and> deleteService ''s1'' (Principal ''alice'') sample_state
     = (Inl ''You are not authorized to delete this service'', sample_state)
   \<and> getService ''s1'' (snd (deleteService ''s1'' (Principal ''alice'') sample_state))
     = Inr (Obj [(''Some'', Obj (service_obj (sample_service ''s1'' ''Food'' ''2024-01-15'')))])
   \<and> btree_get ''s9'' (serviceStorage sample_state) = None
   \<and> deleteService ''s9'' (Principal ''alice'') sample_state
     = (Inl ''You are not authorized to delete this service'', sample_state)
   \<and> ''You are not authorized to delete this service'' \<noteq> not_found_service ''s9''
   \<and> getService ''s9'' sample_state = Inr (Obj [(''None'', Null)])"
  by (simp add: sample_get_s1 sample_get_s9 sample_provider deleteService_refused
      getService_wrapper service_get_def not_found_service_def)

section \<open>Updating the location\<close>


section \<open>Validation of a review\<close>

text \<open>
  Claim C5 says that \<open>addReview\<close> fails with the service-missing message when no service
  is stored under the \<open>serviceId\<close> of a valid payload. The sample state holds no service
  \<open>s9\<close>; a valid review of \<open>s9\<close> is accepted and stored.
\<close>

theorem addReview_accepts_missing_service:
  "btree_get ''s9'' (serviceStorage sample_state) = None
   \<and> addReview ''r9'' 5 sample_orphan_payload (Principal ''bob'') sample_state
     = (Inr sample_orphan_review,
        sample_state\<lparr>reviewStorage :=
          btree_insert ''r9'' sample_orphan_review (reviewStorage sample_state)\<rparr>)
   \<and> btree_get ''r9''
        (reviewStorage (snd (addReview ''r9'' 5 sample_orphan_payload (Principal ''bob'')
           sample_state))) = Some sample_orphan_review"
proof -
  have valid: "\<not> (isNaN (rating sample_orphan_payload)
      \<or> num_lt (rating sample_orphan_payload) (Fin 0)
      \<or> num_gt (rating sample_orphan_payload) (Fin 5)
      \<or> comment sample_orphan_payload = [] \<or> serviceId sample_orphan_payload = []
      \<or> userId sample_orphan_payload = [])"
    by (simp add: sample_orphan_payload_def isNaN_def num_gt_def)
  have run: "addReview ''r9'' 5 sample_orphan_payload (Principal ''bob'') sample_state
     = (Inr sample_orphan_review,
        sample_state\<lparr>reviewStorage :=
          btree_insert ''r9'' sample_orphan_review (reviewStorage sample_state)\<rparr>)"
    using addReview_valid [OF valid, of "''r9''" 5 "Principal ''bob''" sample_state]
    by (simp add: sample_orphan_payload_def sample_orphan_review_def)
  show ?thesis
    by (simp add: run sample_get_s9 btree_get_insert_same)
qed

section \<open>Adding a service and reading it back\<close>

text \<open>
  Claim C6 says that \<open>getService\<close> of the id that \<open>addService\<close> returned gives a record
  equal to the one \<open>addService\<close> returned. \<open>addService\<close> stores and returns the record;
  \<open>getService\<close> returns the object with the one property \<open>Some\<close> that holds it, which is
  not the record: its property \<open>id\<close> is undefined.
\<close>

theorem getService_returns_wrapper:
  "addService ''s4'' 9 sample_payload (Principal ''carol'') sample_state
     = (Inr sample_added,
        sample_state\<lparr>serviceStorage :=
          btree_insert ''s4'' sample_added (serviceStorage sample_state)\<rparr>)
   \<and> getService ''s4'' (snd (addService ''s4'' 9 sample_payload (Principal ''carol'') sample_state))
     = Inr (Obj [(''Some'', Obj (service_obj sample_added))])
   \<and> getService ''s4'' (snd (addService ''s4'' 9 sample_payload (Principal ''carol'') sample_state))
     \<noteq> Inr (Obj (service_obj sample_added))
   \<and> get_prop [(''Some'', Obj (service_obj sample_added))] ''id'' = Undefined
   \<and> get_prop (service_obj sample_added) ''id'' = Str ''s4''"
proof -
  have run: "addService ''s4'' 9 sample_payload (Principal ''carol'') sample_state
     = (Inr sample_added,
        sample_state\<lparr>serviceStorage :=
          btree_insert ''s4'' sample_added (serviceStorage sample_state)\<rparr>)"
    by (simp add: addService_def Let_def sample_payload_def sample_added_def sample_service_def)
  have got: "getService ''s4'' (sample_state\<lparr>serviceStorage :=
          btree_insert ''s4'' sample_added (serviceStorage sample_state)\<rparr>)
     = Inr (Obj [(''Some'', Obj (service_obj sample_added))])"
    by (simp add: getService_wrapper service_get_def btree_get_insert_same)
  have differ: "Obj [(''Some'', Obj (service_obj sample_added))] \<noteq> Obj (service_obj sample_added)"
    by (simp add: service_obj_def)
  have props: "get_prop [(''Some'', Obj (service_obj sample_added))] ''id'' = Undefined"
    "get_prop (service_obj sample_added) ''id'' = Str ''s4''"
    by (simp_all add: get_prop_def service_obj_def sample_added_def sample_service_def)
  show ?thesis
    using differ props by (simp add: run got)
qed

section \<open>A full update and the provider\<close>

text \<open>
  Claim C10 says that a successful \<open>updateService\<close> replaces the provider by the one of
  the payload, so that an authorized update can hand the service to another owner. In the
  sample state the provider \<open>alice\<close> of \<open>s1\<close> sends a payload that names \<open>dave\<close>: the call
  is refused and the stored provider is still \<open>alice\<close>.
\<close>

theorem updateService_keeps_provider:
  "btree_get ''s1'' (serviceStorage sample_state)
     = Some (sample_service ''s1'' ''Food'' ''2024-01-15'')
   \<and> provider (sample_service ''s1'' ''Food'' ''2024-01-15'') = toString (Principal ''alice'')
   \<and> provider (sample_payload\<lparr>provider := ''dave''\<rparr>) = ''dave''
   \<and> updateService as_record 7 ''s1'' (sample_payload\<lparr>provider := ''dave''\<rparr>)
        (Principal ''alice'') sample_state
     = (Inl ''You are not authorized to update this service'', sample_state)
   \<and> btree_get ''s1''
        (serviceStorage (snd (updateService as_record 7 ''s1''
           (sample_payload\<lparr>provider := ''dave''\<rparr>) (Principal ''alice'') sample_state)))
     = Some (sample_service ''s1'' ''Food'' ''2024-01-15'')
   \<and> provider (sample_service ''s1'' ''Food'' ''2024-01-15'') = ''alice''"
  by (simp add: sample_get_s1 sample_provider updateService_refused)

section \<open>Searching by category and by provider\<close>

text \<open>
  Claim C7. \<open>searchServicesByCategory\<close> returns exactly the stored services whose
  category equals the argument without regard to case, and \<open>filterServicesByProvider\<close>
  does the same for the provider. Two arguments that are equal without regard to case,
  such as \<open>Food\<close> and \<open>food\<close>, give the same result in every state.
\<close>

theorem search_case_insensitive:
  "searchServicesByCategory c st
     = Inr (filter (\<lambda>s. spec_ci_eq (category s) c) (btree_values (serviceStorage st)))
   \<and> filterServicesByProvider c st
     = Inr (filter (\<lambda>s. spec_ci_eq (provider s) c) (btree_values (serviceStorage st)))
   \<and> searchServicesByCategory ''Food'' st = searchServicesByCategory ''food'' st
   \<and> filterServicesByProvider ''Food'' st = filterServicesByProvider ''food'' st
   \<and> (spec_ci_eq c c' \<longrightarrow>
        searchServicesByCategory c st = searchServicesByCategory c' st
        \<and> filterServicesByProvider c st = filterServicesByProvider c' st)"
proof -
  have cat: "searchServicesByCategory x st
     = Inr (filter (\<lambda>s. spec_ci_eq (category s) x) (btree_values (serviceStorage st)))" for x
    by (simp add: searchServicesByCategory_def toLowerCase_eq_iff)
  have prov: "filterServicesByProvider x st
     = Inr (filter (\<lambda>s. spec_ci_eq (provider s) x) (btree_values (serviceStorage st)))" for x
    by (simp add: filterServicesByProvider_def toLowerCase_eq_iff)
  have same: "searchServicesByCategory x st = searchServicesByCategory y st
      \<and> filterServicesByProvider x st = filterServicesByProvider y st"
    if "toLowerCase x = toLowerCase y" for x y
    using that by (simp add: searchServicesByCategory_def filterServicesByProvider_def)
  have gen: "spec_ci_eq c c' \<longrightarrow>
        searchServicesByCategory c st = searchServicesByCategory c' st
        \<and> filterServicesByProvider c st = filterServicesByProvider c' st"
    using same [of c c'] toLowerCase_eq_iff [of c c'] by blast
  show ?thesis
    using cat [of c] prov [of c] same [OF lower_Food] gen by blast
qed

lemma ci_FOOD: "spec_ci_eq ''FOOD'' ''food''"
  unfolding toLowerCase_eq_iff [symmetric] by code_simp

text \<open>
  In the sample state the categories are \<open>Food\<close>, \<open>food\<close> and \<open>Music\<close>, and every
  provider is \<open>alice\<close>.
\<close>

theorem search_case_insensitive_witness:
  "searchServicesByCategory ''FOOD'' sample_state
     = Inr [sample_service ''s1'' ''Food'' ''2024-01-15'', sample_service ''s2'' ''food'' ''2024-02-01'']
   \<and> searchServicesByCategory ''FOOD'' sample_state = searchServicesByCategory ''food'' sample_state
   \<and> filterServicesByProvider ''FOOD'' sample_state = Inr []"
proof -
  have l1: "toLowerCase ''Food'' = toLowerCase ''FOOD''" by code_simp
  have l2: "toLowerCase ''food'' = toLowerCase ''FOOD''" by code_simp
  have l3: "toLowerCase ''Music'' \<noteq> toLowerCase ''FOOD''" by code_simp
  have l4: "toLowerCase ''alice'' \<noteq> toLowerCase ''FOOD''" by code_simp
  have "searchServicesByCategory ''FOOD'' sample_state
     = Inr [sample_service ''s1'' ''Food'' ''2024-01-15'', sample_service ''s2'' ''food'' ''2024-02-01'']"
    using search_case_insensitive [of "''FOOD''" sample_state "''food''"] l1 l2 l3
    by (simp add: toLowerCase_eq_iff [symmetric] sample_state_def btree_values_def
        sample_service_def)
  moreover have "searchServicesByCategory ''FOOD'' sample_state
       = searchServicesByCategory ''food'' sample_state"
    using search_case_insensitive [of "''FOOD''" sample_state "''food''"] ci_FOOD by blast
  moreover have "filterServicesByProvider ''FOOD'' sample_state = Inr []"
    using search_case_insensitive [of "''FOOD''" sample_state "''food''"] l4
    by (simp add: toLowerCase_eq_iff [symmetric] sample_state_def btree_values_def
        sample_service_def)
  ultimately show ?thesis by blast
qed

section \<open>Filtering by a range of dates\<close>

text \<open>
  Claim C8. \<open>filterServicesByDateRange\<close> returns exactly the stored services whose date
  lies between the two arguments in the lexicographic order of strings. Both ends belong
  to the range: a service dated as one of the arguments is returned when the range is not
  empty. For the range from \<open>2024-01-01\<close> to \<open>2024-01-31\<close>, a service dated
  \<open>2024-01-15\<close> is returned and one dated \<open>2024-02-01\<close> is not.
\<close>

theorem filterServicesByDateRange_lexicographic:
  "filterServicesByDateRange a b st
     = Inr (filter (\<lambda>s. spec_lex_le a (date s) \<and> spec_lex_le (date s) b)
              (btree_values (serviceStorage st)))
   \<and> (\<forall>s \<in> set (btree_values (serviceStorage st)).
        spec_lex_le a b \<and> (date s = a \<or> date s = b) \<longrightarrow>
        (\<exists>xs. filterServicesByDateRange a b st = Inr xs \<and> s \<in> set xs))
   \<and> (\<forall>s \<in> set (btree_values (serviceStorage st)).
        (date s = ''2024-01-15'' \<longrightarrow>
           (\<exists>xs. filterServicesByDateRange ''2024-01-01'' ''2024-01-31'' st = Inr xs \<and> s \<in> set xs))
        \<and> (date s = ''2024-02-01'' \<longrightarrow>
           (\<exists>xs. filterServicesByDateRange ''2024-01-01'' ''2024-01-31'' st = Inr xs \<and> s \<notin> set xs)))"
proof -
  have eq: "\<And>a b. filterServicesByDateRange a b st
     = Inr (filter (\<lambda>s. spec_lex_le a (date s) \<and> spec_lex_le (date s) b)
              (btree_values (serviceStorage st)))"
    by (simp add: filterServicesByDateRange_def str_ge_spec str_le_spec)
  have refl: "\<And>x. spec_lex_le x x" by (simp add: spec_lex_le_def)
  have in1: "spec_lex_le ''2024-01-01'' ''2024-01-15''"
    and in2: "spec_lex_le ''2024-01-15'' ''2024-01-31''"
    and out: "\<not> spec_lex_le ''2024-02-01'' ''2024-01-31''"
    by (simp_all add: str_le_spec [symmetric] str_le_def)
  show ?thesis
    using refl in1 in2 out by (auto simp: eq)
qed

text \<open>
  The sample state holds services dated \<open>2024-01-15\<close>, \<open>2024-02-01\<close> and \<open>2024-01-31\<close>.
\<close>

theorem filterServicesByDateRange_lexicographic_witness:
  "filterServicesByDateRange ''2024-01-01'' ''2024-01-31'' sample_state
     = Inr [sample_service ''s1'' ''Food'' ''2024-01-15'', sample_service ''s3'' ''Music'' ''2024-01-31'']
   \<and> sample_service ''s2'' ''food'' ''2024-02-01'' \<in> set (btree_values (serviceStorage sample_state))"
proof -
  have vals: "btree_values (serviceStorage sample_state)
      = [sample_service ''s1'' ''Food'' ''2024-01-15'', sample_service ''s2'' ''food'' ''2024-02-01'',
         sample_service ''s3'' ''Music'' ''2024-01-31'']"
    by (simp add: sample_state_def btree_values_def)
  have d: "date (sample_service i c x) = x" for i c x
    by (simp add: sample_service_def)
  have les: "spec_lex_le ''2024-01-01'' ''2024-01-15''" "spec_lex_le ''2024-01-15'' ''2024-01-31''"
    "\<not> spec_lex_le ''2024-02-01'' ''2024-01-31''" "spec_lex_le ''2024-01-01'' ''2024-01-31''"
    "spec_lex_le ''2024-01-31'' ''2024-01-31''"
    by (simp_all add: str_le_spec [symmetric] str_le_def)
  from filterServicesByDateRange_lexicographic [of "''2024-01-01''" "''2024-01-31''" sample_state]
  have "filterServicesByDateRange ''2024-01-01'' ''2024-01-31'' sample_state
     = Inr (filter (\<lambda>s. spec_lex_le ''2024-01-01'' (date s) \<and> spec_lex_le (date s) ''2024-01-31'')
              (btree_values (serviceStorage sample_state)))"
    by blast
  then show ?thesis
    by (simp add: vals d les)
qed

section \<open>Queries always succeed\<close>

text \<open>
  Claim C9. The enumerations, filters and searches (\<open>getServices\<close>,
  \<open>searchServicesByCategory\<close>, \<open>filterServicesByProvider\<close>, \<open>filterServicesByDateRange\<close>,
  \<open>getServiceReviews\<close>, \<open>getAllReviews\<close>, \<open>getAllUsers\<close>, \<open>searchUsersByUsername\<close>,
  \<open>searchUsersByEmail\<close>) return a list in the success branch for every argument and every
  state. \<open>getServiceReviews\<close> of a \<open>serviceId\<close> that no stored review carries returns
  the empty list, whether a service with that id is stored or not.
\<close>

theorem queries_never_fail:
  "(\<exists>xs. getServices st = Inr xs)
   \<and> (\<exists>xs. searchServicesByCategory a st = Inr xs)
   \<and> (\<exists>xs. filterServicesByProvider a st = Inr xs)
   \<and> (\<exists>xs. filterServicesByDateRange a b st = Inr xs)
   \<and> (\<exists>xs. getServiceReviews a st = Inr xs)
   \<and> (\<exists>xs. getAllReviews st = Inr xs)
   \<and> (\<exists>xs. getAllUsers st = Inr xs)
   \<and> (\<exists>xs. searchUsersByUsername a st = Inr xs)
   \<and> (\<exists>xs. searchUsersByEmail a st = Inr xs)
   \<and> ((\<forall>r \<in> set (btree_values (reviewStorage st)). serviceId r \<noteq> a) \<longrightarrow>
        getServiceReviews a st = Inr [])"
  by (simp add: getServices_def searchServicesByCategory_def filterServicesByProvider_def
      filterServicesByDateRange_def getServiceReviews_def getAllReviews_def getAllUsers_def
      searchUsersByUsername_def searchUsersByEmail_def filter_empty_conv)

text \<open>The sample state holds neither a service \<open>s9\<close> nor a review of it.\<close>

theorem queries_never_fail_witness:
  "getServiceReviews ''s9'' sample_state = Inr []
   \<and> btree_get ''s9'' (serviceStorage sample_state) = None"
proof -
  have "\<forall>r \<in> set (btree_values (reviewStorage sample_state)). serviceId r \<noteq> ''s9''"
    by (simp add: sample_state_def sample_review_def btree_values_def)
  then show ?thesis
    using queries_never_fail [of sample_state "''s9''" "''''"] sample_get_s9 by blast
qed

end
